theory Spec2Isabelle
  imports Complex_Main "HOL-Library.Sublist"
begin

section \<open>Rule-based posture detection (backend/main.py)\<close>

text \<open>
  A shallow embedding of \<^verbatim>\<open>backend/main.py\<close>. Coordinates are finite floats and so
  real numbers; comparisons of coordinates are exact. The arithmetic inside
  \<^verbatim>\<open>calculate_angle\<close> is modelled without rounding: the model gives the value the
  source computes wherever every intermediate result is exact (as for the example poses
  below), and the source can differ from it by rounding, underflow or overflow elsewhere.
  NaN from the division 0/0 is modelled by \<open>None\<close>; every comparison with NaN is false,
  as in IEEE arithmetic. Python exceptions are values of \<open>py_error\<close>.
\<close>

subsection \<open>Errors and landmarks\<close>

datatype py_error = IndexError | AttributeError | CvError | FileNotFoundError

text \<open>A pose landmark as the pose service delivers it; the source reads these three fields.\<close>

record landmark =
  lm_x :: real
  lm_y :: real
  lm_visibility :: real

text \<open>
  The values of \<^verbatim>\<open>mp.solutions.pose.PoseLandmark\<close>, the joint enumeration of the
  external pose library (33 joints, numbered from 0).
\<close>

definition LEFT_EAR :: nat where "LEFT_EAR = 7"
definition LEFT_SHOULDER :: nat where "LEFT_SHOULDER = 11"
definition LEFT_HIP :: nat where "LEFT_HIP = 23"
definition LEFT_KNEE :: nat where "LEFT_KNEE = 25"
definition LEFT_ANKLE :: nat where "LEFT_ANKLE = 27"
definition LEFT_FOOT_INDEX :: nat where "LEFT_FOOT_INDEX = 31"

text \<open>
  \<^verbatim>\<open>landmarks[i]\<close>: an index past the end raises IndexError. An entry of the sequence
  may be Python's \<^verbatim>\<open>None\<close> (an absent landmark); reading \<^verbatim>\<open>.x\<close> or \<^verbatim>\<open>.y\<close> of it
  raises AttributeError.
\<close>

definition getitem :: "'a list \<Rightarrow> nat \<Rightarrow> py_error + 'a" where
  "getitem xs i = (if i < length xs then Inr (xs ! i) else Inl IndexError)"

definition attr :: "(landmark \<Rightarrow> real) \<Rightarrow> landmark option \<Rightarrow> py_error + real" where
  "attr field lm = (case lm of None \<Rightarrow> Inl AttributeError | Some l \<Rightarrow> Inr (field l))"

subsection \<open>Geometry: \<^verbatim>\<open>calculate_angle\<close>\<close>

type_synonym point = "real \<times> real"

definition vsub :: "point \<Rightarrow> point \<Rightarrow> point" where
  "vsub p q = (fst p - fst q, snd p - snd q)"

definition vadd :: "point \<Rightarrow> point \<Rightarrow> point" where
  "vadd p q = (fst p + fst q, snd p + snd q)"

definition np_dot :: "point \<Rightarrow> point \<Rightarrow> real" where
  "np_dot u v = fst u * fst v + snd u * snd v"

definition linalg_norm :: "point \<Rightarrow> real" where
  "linalg_norm u = sqrt ((fst u)\<^sup>2 + (snd u)\<^sup>2)"

definition np_clip :: "real \<Rightarrow> real \<Rightarrow> real \<Rightarrow> real" where
  "np_clip v lo hi = min (max v lo) hi"

definition np_degrees :: "real \<Rightarrow> real" where
  "np_degrees r = r * 180 / pi"

text \<open>
  The angle in degrees at \<open>b\<close>, in exact arithmetic. When one of the two vectors is zero
  the source divides 0 by 0 and every later step keeps the NaN: the result is \<open>None\<close>.
  The numeric value that the source returns is subject to binary64 rounding in each step
  and to the platform's \<^verbatim>\<open>arccos\<close>; the properties below use the angle through the
  control flow of the evaluators, at inputs where the computation is exact, or as the same
  function of the same differences \<open>a - b\<close> and \<open>c - b\<close>.
\<close>

definition calculate_angle :: "point \<Rightarrow> point \<Rightarrow> point \<Rightarrow> real option" where
  "calculate_angle a b c =
     (let ba = vsub a b;
          bc = vsub c b;
          d = linalg_norm ba * linalg_norm bc
      in if d = 0 then None
         else Some (np_degrees (arccos (np_clip (np_dot ba bc / d) (- 1) 1))))"

subsection \<open>Formatting\<close>

text \<open>Python's \<^verbatim>\<open>int(v)\<close> on a float truncates towards zero.\<close>

definition py_int :: "real \<Rightarrow> int" where
  "py_int v = (if 0 \<le> v then \<lfloor>v\<rfloor> else \<lceil>v\<rceil>)"

definition digit_char :: "nat \<Rightarrow> char" where
  "digit_char d = ''0123456789'' ! d"

fun digits :: "nat \<Rightarrow> string" where
  "digits n = (if n < 10 then [digit_char n] else digits (n div 10) @ [digit_char (n mod 10)])"

text \<open>The decimal rendering of an integer inside an f-string.\<close>

definition str_int :: "int \<Rightarrow> string" where
  "str_int i = (if i < 0 then CHR ''-'' # digits (nat (- i)) else digits (nat i))"

text \<open>The degree sign U+00B0 that ends the messages with an angle.\<close>

definition degree_sign :: char where
  "degree_sign = CHR 0xB0"

definition angle_message :: "string \<Rightarrow> real \<Rightarrow> string" where
  "angle_message label v = label @ str_int (py_int v) @ [degree_sign]"

subsection \<open>Rule evaluators\<close>

text \<open>
  Both evaluators run their body inside \<^verbatim>\<open>try\<close> with \<^verbatim>\<open>except Exception: pass\<close>
  and then return \<^verbatim>\<open>issues\<close>. \<open>try_step issues m k\<close> is one step of such a body:
  when \<open>m\<close> raises, the handler passes and the function returns the issues appended so
  far; otherwise the body goes on with the value.
\<close>

definition try_step :: "string list \<Rightarrow> py_error + 'a \<Rightarrow> ('a \<Rightarrow> string list) \<Rightarrow> string list" where
  "try_step issues m k = (case m of Inl e \<Rightarrow> issues | Inr v \<Rightarrow> k v)"

text \<open>The two rules of the squat evaluator, each appending to \<open>issues\<close>.\<close>

definition knee_over_toe :: "string list \<Rightarrow> real \<Rightarrow> real \<Rightarrow> string list" where
  "knee_over_toe issues knee_x toe_x =
     (if knee_x > toe_x then issues @ [''Left knee over toe''] else issues)"

definition back_angle_rule :: "string list \<Rightarrow> real option \<Rightarrow> string list" where
  "back_angle_rule issues back_angle =
     (case back_angle of
        None \<Rightarrow> issues
      | Some v \<Rightarrow> if v < 150 then issues @ [angle_message ''Back angle too small: '' v] else issues)"

definition check_squat_rules :: "landmark option list \<Rightarrow> string list" where
  "check_squat_rules landmarks =
     try_step [] (getitem landmarks LEFT_KNEE) (\<lambda>left_knee.
     try_step [] (getitem landmarks LEFT_ANKLE) (\<lambda>left_ankle.
     try_step [] (getitem landmarks LEFT_HIP) (\<lambda>left_hip.
     try_step [] (getitem landmarks LEFT_SHOULDER) (\<lambda>left_shoulder.
     try_step [] (getitem landmarks LEFT_FOOT_INDEX) (\<lambda>left_toe.
     try_step [] (attr lm_x left_knee) (\<lambda>knee_x.
     try_step [] (attr lm_x left_toe) (\<lambda>toe_x.
     let issues = knee_over_toe [] knee_x toe_x in
     try_step issues (attr lm_x left_shoulder) (\<lambda>shoulder_x.
     try_step issues (attr lm_y left_shoulder) (\<lambda>shoulder_y.
     try_step issues (attr lm_x left_hip) (\<lambda>hip_x.
     try_step issues (attr lm_y left_hip) (\<lambda>hip_y.
     try_step issues (attr lm_x left_knee) (\<lambda>knee_x'.
     try_step issues (attr lm_y left_knee) (\<lambda>knee_y.
     back_angle_rule issues
       (calculate_angle (shoulder_x, shoulder_y) (hip_x, hip_y) (knee_x', knee_y)))))))))))))))"

text \<open>The two rules of the sitting evaluator.\<close>

definition neck_bend_rule :: "string list \<Rightarrow> real option \<Rightarrow> string list" where
  "neck_bend_rule issues neck_angle =
     (case neck_angle of
        None \<Rightarrow> issues
      | Some v \<Rightarrow> if v > 30 then issues @ [angle_message ''Neck bend too large: '' v] else issues)"

definition back_straight_rule :: "string list \<Rightarrow> real option \<Rightarrow> string list" where
  "back_straight_rule issues back_angle =
     (case back_angle of
        None \<Rightarrow> issues
      | Some v \<Rightarrow>
          if \<bar>v - 180\<bar> > 20 then issues @ [angle_message ''Back not straight: '' v] else issues)"

definition check_sitting_rules :: "landmark option list \<Rightarrow> string list" where
  "check_sitting_rules landmarks =
     try_step [] (getitem landmarks LEFT_SHOULDER) (\<lambda>left_shoulder.
     try_step [] (getitem landmarks LEFT_EAR) (\<lambda>left_ear.
     try_step [] (getitem landmarks LEFT_HIP) (\<lambda>left_hip.
     try_step [] (attr lm_x left_shoulder) (\<lambda>shoulder_x.
     try_step [] (attr lm_y left_shoulder) (\<lambda>shoulder_y.
     let vertical = (shoulder_x, shoulder_y - 1) in
     try_step [] (attr lm_x left_ear) (\<lambda>ear_x.
     try_step [] (attr lm_y left_ear) (\<lambda>ear_y.
     let issues =
       neck_bend_rule [] (calculate_angle (shoulder_x, shoulder_y) (ear_x, ear_y) vertical) in
     try_step issues (attr lm_x left_hip) (\<lambda>hip_x.
     try_step issues (attr lm_y left_hip) (\<lambda>hip_y.
     back_straight_rule issues
       (calculate_angle (shoulder_x, shoulder_y) (hip_x, hip_y) (hip_x, hip_y - 1)))))))))))"

subsection \<open>Results\<close>

text \<open>
  The dictionaries the endpoints return: a keypoint \<^verbatim>\<open>{"x", "y", "visibility"}\<close>, the
  result of one image \<^verbatim>\<open>{"issues", "keypoints"}\<close>, the result of one video frame, which
  has the key \<^verbatim>\<open>"frame"\<close> as well, and \<^verbatim>\<open>{"frames": [...]}\<close>.
\<close>

record keypoint =
  kp_x :: real
  kp_y :: real
  kp_visibility :: real

record image_result =
  issues :: "string list"
  keypoints :: "keypoint list"

record frame_result = image_result +
  frame :: nat

record video_result =
  frames :: "frame_result list"

subsection \<open>External collaborators\<close>

text \<open>
  The media decoders and the pose service are outside the repository and are parameters of
  the model. \<open>'b\<close> is the uploaded content, \<open>'img\<close> a decoded image, \<open>'s\<close> the
  state of a pose session (in video mode the session tracks the body from frame to frame).
  \<^item> \<open>imread\<close>: \<^verbatim>\<open>cv2.imread\<close> on the content of a path; \<open>None\<close> when there is no
    such file or it does not decode.
  \<^item> \<open>VideoCapture\<close>: \<^verbatim>\<open>cv2.VideoCapture\<close>; \<open>None\<close> when the capture does not open,
    otherwise the frames that \<^verbatim>\<open>read()\<close> delivers in order.
  \<^item> \<open>cvtColor\<close>: the colour conversion of a decoded image.
  \<^item> \<open>Pose\<close>: a new pose session, given \<^verbatim>\<open>static_image_mode\<close>.
  \<^item> \<open>process\<close>: one call of the session; \<^verbatim>\<open>pose_landmarks\<close> is \<open>None\<close> when no
    body is detected.
\<close>

record ('b, 'img, 's) services =
  imread :: "'b option \<Rightarrow> 'img option"
  VideoCapture :: "'b option \<Rightarrow> 'img list option"
  cvtColor :: "'img \<Rightarrow> 'img"
  Pose :: "bool \<Rightarrow> 's"
  process :: "'s \<Rightarrow> 'img \<Rightarrow> landmark list option \<times> 's"

text \<open>\<^verbatim>\<open>cv2.cvtColor\<close> raises on the \<^verbatim>\<open>None\<close> that a failed \<^verbatim>\<open>imread\<close> returns.\<close>

definition cv2_cvtColor :: "('b, 'img, 's) services \<Rightarrow> 'img option \<Rightarrow> py_error + 'img" where
  "cv2_cvtColor sv src = (case src of None \<Rightarrow> Inl CvError | Some img \<Rightarrow> Inr (cvtColor sv img))"

text \<open>
  Temporary storage: the content of each path. \<^verbatim>\<open>NamedTemporaryFile(delete=False)\<close>
  followed by \<^verbatim>\<open>write\<close> stores the upload under the path the system picked;
  \<^verbatim>\<open>os.remove\<close> deletes a path and raises when there is no such file.
\<close>

type_synonym 'b tmpfs = "nat \<Rightarrow> 'b option"

definition write_temp :: "nat \<Rightarrow> 'b \<Rightarrow> 'b tmpfs \<Rightarrow> 'b tmpfs" where
  "write_temp temp_path content fs = fs(temp_path \<mapsto> content)"

definition os_remove :: "nat \<Rightarrow> 'b tmpfs \<Rightarrow> py_error + 'b tmpfs" where
  "os_remove path fs = (if fs path = None then Inl FileNotFoundError else Inr (fs(path := None)))"

subsection \<open>From a pose result to issues and keypoints\<close>

text \<open>
  Both endpoints contain the same block: when the pose result has landmarks, the rules of
  the activity run on them (no rules for any other activity name) and every landmark
  becomes a keypoint; otherwise both lists stay empty.
\<close>

definition lm_keypoint :: "landmark \<Rightarrow> keypoint" where
  "lm_keypoint lm = \<lparr>kp_x = lm_x lm, kp_y = lm_y lm, kp_visibility = lm_visibility lm\<rparr>"

definition rule_issues :: "string \<Rightarrow> landmark list \<Rightarrow> string list" where
  "rule_issues activity landmarks =
     (if activity = ''squat'' then check_squat_rules (map Some landmarks)
      else if activity = ''sitting'' then check_sitting_rules (map Some landmarks)
      else [])"

definition pose_feedback :: "string \<Rightarrow> landmark list option \<Rightarrow> image_result" where
  "pose_feedback activity pose_landmarks =
     (case pose_landmarks of
        None \<Rightarrow> \<lparr>issues = [], keypoints = []\<rparr>
      | Some landmarks \<Rightarrow>
          \<lparr>issues = rule_issues activity landmarks, keypoints = map lm_keypoint landmarks\<rparr>)"

subsection \<open>\<^verbatim>\<open>analyze_video\<close>\<close>

definition frame_skip :: nat where
  "frame_skip = 5"

text \<open>
  The \<^verbatim>\<open>while\<close> loop over the frames that are left in the capture; it ends when
  \<^verbatim>\<open>read()\<close> has no frame left, and it does not run at all when the capture did
  not open. The counter \<^verbatim>\<open>processed_idx\<close> is never read and
  \<^verbatim>\<open>cap.release()\<close> changes nothing the function returns; both are left out.
\<close>

fun frame_loop ::
  "('b, 'img, 's) services \<Rightarrow> string \<Rightarrow> 's \<Rightarrow> 'img list \<Rightarrow> nat \<Rightarrow> frame_result list
     \<Rightarrow> frame_result list" where
  "frame_loop sv activity pose [] frame_idx frame_results = frame_results"
| "frame_loop sv activity pose (image_bgr # rest) frame_idx frame_results =
     (if frame_idx mod frame_skip \<noteq> 0
      then frame_loop sv activity pose rest (frame_idx + 1) frame_results
      else
        let (results, pose') = process sv pose (cvtColor sv image_bgr);
            r = pose_feedback activity results
        in frame_loop sv activity pose' rest (frame_idx + 1)
             (frame_results @ [\<lparr>issues = issues r, keypoints = keypoints r, frame = frame_idx\<rparr>]))"

definition analyze_video ::
  "('b, 'img, 's) services \<Rightarrow> 'b \<Rightarrow> string \<Rightarrow> nat \<Rightarrow> 'b tmpfs
     \<Rightarrow> (py_error + video_result) \<times> 'b tmpfs" where
  "analyze_video sv file activity temp_path fs =
     (let fs1 = write_temp temp_path file fs;
          frame_results =
            (case VideoCapture sv (fs1 temp_path) of
               None \<Rightarrow> []
             | Some video \<Rightarrow> frame_loop sv activity (Pose sv False) video 0 [])
      in case os_remove temp_path fs1 of
           Inl e \<Rightarrow> (Inl e, fs1)
         | Inr fs2 \<Rightarrow> (Inr \<lparr>frames = frame_results\<rparr>, fs2))"

subsection \<open>\<^verbatim>\<open>analyze_frame\<close>\<close>

definition analyze_frame ::
  "('b, 'img, 's) services \<Rightarrow> 'b \<Rightarrow> string \<Rightarrow> nat \<Rightarrow> 'b tmpfs
     \<Rightarrow> (py_error + image_result) \<times> 'b tmpfs" where
  "analyze_frame sv file activity temp_path fs =
     (let fs1 = write_temp temp_path file fs;
          image_bgr = imread sv (fs1 temp_path)
      in case cv2_cvtColor sv image_bgr of
           Inl e \<Rightarrow> (Inl e, fs1)
         | Inr image_rgb \<Rightarrow>
             (let results = fst (process sv (Pose sv True) image_rgb);
                  r = pose_feedback activity results
              in case os_remove temp_path fs1 of
                   Inl e \<Rightarrow> (Inl e, fs1)
                 | Inr fs2 \<Rightarrow> (Inr r, fs2)))"

subsection \<open>Vocabulary of the specification\<close>

text \<open>
  A required landmark is missing when its index is past the end of the sequence, absent
  when its entry is \<^verbatim>\<open>None\<close>, and present otherwise.
\<close>

definition missing :: "landmark option list \<Rightarrow> nat \<Rightarrow> bool" where
  "missing landmarks i = (length landmarks \<le> i)"

definition absent :: "landmark option list \<Rightarrow> nat \<Rightarrow> bool" where
  "absent landmarks i = (i < length landmarks \<and> landmarks ! i = None)"

definition present :: "landmark option list \<Rightarrow> nat \<Rightarrow> bool" where
  "present landmarks i = (i < length landmarks \<and> landmarks ! i \<noteq> None)"

definition squat_required :: "nat list" where
  "squat_required = [LEFT_KNEE, LEFT_ANKLE, LEFT_HIP, LEFT_SHOULDER, LEFT_FOOT_INDEX]"

definition sitting_required :: "nat list" where
  "sitting_required = [LEFT_SHOULDER, LEFT_EAR, LEFT_HIP]"

text \<open>The coordinates of a present landmark.\<close>

definition joint_x :: "landmark option list \<Rightarrow> nat \<Rightarrow> real" where
  "joint_x landmarks i = lm_x (the (landmarks ! i))"

definition joint_y :: "landmark option list \<Rightarrow> nat \<Rightarrow> real" where
  "joint_y landmarks i = lm_y (the (landmarks ! i))"

definition joint :: "landmark option list \<Rightarrow> nat \<Rightarrow> point" where
  "joint landmarks i = (joint_x landmarks i, joint_y landmarks i)"

text \<open>
  The frames of an upload as the capture delivers them, the frames the stride selects
  with their indices, and the pose results of one session on a sequence of frames.
\<close>

definition video_frames :: "('b, 'img, 's) services \<Rightarrow> 'b \<Rightarrow> 'img list" where
  "video_frames sv file = (case VideoCapture sv (Some file) of None \<Rightarrow> [] | Some video \<Rightarrow> video)"

definition sampled :: "nat \<Rightarrow> 'img list \<Rightarrow> (nat \<times> 'img) list" where
  "sampled start video = filter (\<lambda>p. fst p mod frame_skip = 0) (enumerate start video)"

fun pose_outputs ::
  "('b, 'img, 's) services \<Rightarrow> 's \<Rightarrow> 'img list \<Rightarrow> landmark list option list" where
  "pose_outputs sv pose [] = []"
| "pose_outputs sv pose (image_bgr # rest) =
     (let (results, pose') = process sv pose (cvtColor sv image_bgr)
      in results # pose_outputs sv pose' rest)"

definition video_detections :: "('b, 'img, 's) services \<Rightarrow> 'b \<Rightarrow> landmark list option list" where
  "video_detections sv file =
     pose_outputs sv (Pose sv False) (map snd (sampled 0 (video_frames sv file)))"

text \<open>The pose result of the single image of an upload, when it decodes.\<close>

definition image_detection :: "('b, 'img, 's) services \<Rightarrow> 'b \<Rightarrow> landmark list option" where
  "image_detection sv file =
     (case imread sv (Some file) of
        None \<Rightarrow> None
      | Some img \<Rightarrow> fst (process sv (Pose sv True) (cvtColor sv img)))"

text \<open>
  The contract of the pose service: a detected body has landmarks (33 of them in the
  reference joint schema).
\<close>

definition pose_contract :: "('b, 'img, 's) services \<Rightarrow> bool" where
  "pose_contract sv = (\<forall>pose img. fst (process sv pose img) \<noteq> Some [])"

subsection \<open>Float addition\<close>

text \<open>
  Python's \<^verbatim>\<open>+\<close> on two floats is the IEEE 754 binary64 sum: the exact sum rounded
  to the nearest representable number, a tie going to the even significand, and a result
  of magnitude \<open>2 ^ 1024\<close> or more being infinite (\<open>None\<close> here). \<open>f64_exponent v\<close> is
  the exponent of the last place of the numbers around \<open>v\<close>: 52 below the power of two
  at or under \<open>\<bar>v\<bar>\<close>, and never under -1074, the last place of the subnormal numbers.
  A caller who moves a point by a vector adds the coordinates this way.
\<close>

definition round_half_even :: "real \<Rightarrow> int" where
  "round_half_even r =
     (let f = \<lfloor>r\<rfloor>; d = r - of_int f
      in if d < 1/2 then f else if 1/2 < d then f + 1 else if even f then f else f + 1)"

definition f64_exponent :: "real \<Rightarrow> int" where
  "f64_exponent v = max (\<lfloor>log 2 \<bar>v\<bar>\<rfloor> - 52) (- 1074)"

definition f64_round :: "real \<Rightarrow> real option" where
  "f64_round v =
     (if v = 0 then Some 0
      else
        let q = 2 powi f64_exponent v;
            r = of_int (round_half_even (v / q)) * q
        in if 2 ^ 1024 \<le> \<bar>r\<bar> then None else Some r)"

definition f64_add :: "real \<Rightarrow> real \<Rightarrow> real option" where
  "f64_add u v = f64_round (u + v)"

definition translate_f64 :: "point \<Rightarrow> point \<Rightarrow> point option" where
  "translate_f64 p t =
     (case (f64_add (fst p) (fst t), f64_add (snd p) (snd t)) of
        (Some u, Some v) \<Rightarrow> Some (u, v)
      | _ \<Rightarrow> None)"

subsection \<open>Example inputs\<close>

definition lm_at :: "real \<Rightarrow> real \<Rightarrow> landmark option" where
  "lm_at px py = Some \<lparr>lm_x = px, lm_y = py, lm_visibility = 1\<rparr>"

definition origin_pose :: "landmark option list" where
  "origin_pose = replicate 33 (lm_at 0 0)"

text \<open>Knee at x = 0.6 or 0.4 with the toe at x = 0.5.\<close>

definition knee_at :: "real \<Rightarrow> landmark option list" where
  "knee_at kx =
     origin_pose[LEFT_SHOULDER := lm_at (1/2) 0, LEFT_HIP := lm_at (1/2) 1, LEFT_KNEE := lm_at kx 2,
                 LEFT_FOOT_INDEX := lm_at (5/10) 3]"

text \<open>The knee beyond the toe and the shoulder entry \<^verbatim>\<open>None\<close>.\<close>

definition no_shoulder :: "landmark option list" where
  "no_shoulder = (knee_at (6/10))[LEFT_SHOULDER := None]"

text \<open>The sequence stops before the foot index.\<close>

definition short_pose :: "landmark option list" where
  "short_pose = replicate 31 (lm_at 0 0)"

text \<open>
  An upright sitter in normalised image coordinates (y grows downwards): the ear straight
  above the shoulder, the shoulder straight above the hip.
\<close>

definition upright :: "landmark option list" where
  "upright =
     origin_pose[LEFT_SHOULDER := lm_at (1/2) (1/2), LEFT_EAR := lm_at (1/2) (1/4),
                 LEFT_HIP := lm_at (1/2) 1]"

definition upright_no_hip :: "landmark option list" where
  "upright_no_hip = upright[LEFT_HIP := None]"

text \<open>A coordinate that a float addition to 1 absorbs.\<close>

definition tiny :: real where
  "tiny = 1 / 2 ^ 60"

text \<open>
  A toy instance of the collaborators: an upload is a list of flags, one per frame, telling
  whether a body is visible; an image decodes from a one-frame upload, a video opens on a
  non-empty one; the pose session is stateless.
\<close>

definition visible_body :: "landmark list" where
  "visible_body = replicate 33 \<lparr>lm_x = 1/2, lm_y = 1/2, lm_visibility = 1\<rparr>"

definition toy :: "(bool list, bool, unit) services" where
  "toy =
     \<lparr>imread = (\<lambda>content. case content of Some [v] \<Rightarrow> Some v | _ \<Rightarrow> None),
      VideoCapture = (\<lambda>content. case content of Some (v # vs) \<Rightarrow> Some (v # vs) | _ \<Rightarrow> None),
      cvtColor = (\<lambda>img. img),
      Pose = (\<lambda>static_image_mode. ()),
      process = (\<lambda>pose img. (if img then Some visible_body else None, pose))\<rparr>"

definition twelve_frames :: "bool list" where
  "twelve_frames = [True, True, True, True, True, False, True, True, True, True, True, True]"

definition no_files :: "bool list tmpfs" where
  "no_files = (\<lambda>path. None)"

section \<open>Properties\<close>

subsection \<open>Auxiliary facts\<close>

declare digits.simps [simp del]

lemmas PoseLandmark_defs =
  LEFT_EAR_def LEFT_SHOULDER_def LEFT_HIP_def LEFT_KNEE_def LEFT_ANKLE_def LEFT_FOOT_INDEX_def

lemma try_step_simps [simp]:
  "try_step acc (Inl e) k = acc" "try_step acc (Inr v) k = k v"
  by (simp_all add: try_step_def)

lemma getitem_missing: "missing xs i \<Longrightarrow> getitem xs i = Inl IndexError"
  by (simp add: getitem_def missing_def)

lemma getitem_in: "i < length xs \<Longrightarrow> getitem xs i = Inr (xs ! i)"
  by (simp add: getitem_def)

lemma getitem_cases: "getitem xs i = Inl IndexError \<or> getitem xs i = Inr (xs ! i)"
  by (simp add: getitem_def)

lemma attr_None [simp]: "attr f None = Inl AttributeError"
  by (simp add: attr_def)

lemma attr_Some [simp]: "attr f (Some l) = Inr (f l)"
  by (simp add: attr_def)

lemma squat_missing:
  assumes "\<exists>i\<in>set squat_required. missing lms i"
  shows "check_squat_rules lms = []"
proof -
  from assms have "getitem lms LEFT_KNEE = Inl IndexError \<or> getitem lms LEFT_ANKLE = Inl IndexError
    \<or> getitem lms LEFT_HIP = Inl IndexError \<or> getitem lms LEFT_SHOULDER = Inl IndexError
    \<or> getitem lms LEFT_FOOT_INDEX = Inl IndexError"
    by (auto simp: squat_required_def getitem_missing)
  then show ?thesis
    using getitem_cases [of lms LEFT_KNEE] getitem_cases [of lms LEFT_ANKLE]
      getitem_cases [of lms LEFT_HIP] getitem_cases [of lms LEFT_SHOULDER]
    unfolding check_squat_rules_def by auto
qed

lemma squat_in_range:
  assumes "\<forall>i\<in>set squat_required. \<not> missing lms i"
  shows "check_squat_rules lms =
     try_step [] (attr lm_x (lms ! LEFT_KNEE)) (\<lambda>knee_x.
     try_step [] (attr lm_x (lms ! LEFT_FOOT_INDEX)) (\<lambda>toe_x.
     let issues = knee_over_toe [] knee_x toe_x in
     try_step issues (attr lm_x (lms ! LEFT_SHOULDER)) (\<lambda>shoulder_x.
     try_step issues (attr lm_y (lms ! LEFT_SHOULDER)) (\<lambda>shoulder_y.
     try_step issues (attr lm_x (lms ! LEFT_HIP)) (\<lambda>hip_x.
     try_step issues (attr lm_y (lms ! LEFT_HIP)) (\<lambda>hip_y.
     try_step issues (attr lm_y (lms ! LEFT_KNEE)) (\<lambda>knee_y.
     back_angle_rule issues
       (calculate_angle (shoulder_x, shoulder_y) (hip_x, hip_y) (knee_x, knee_y)))))))))"
  using assms
  by (cases "lms ! LEFT_KNEE") (simp_all add: check_squat_rules_def squat_required_def missing_def getitem_in)

lemma squat_present:
  assumes "\<forall>i\<in>set squat_required. present lms i"
  shows "check_squat_rules lms =
     back_angle_rule (knee_over_toe [] (joint_x lms LEFT_KNEE) (joint_x lms LEFT_FOOT_INDEX))
       (calculate_angle (joint lms LEFT_SHOULDER) (joint lms LEFT_HIP) (joint lms LEFT_KNEE))"
proof -
  from assms have "\<forall>i\<in>set squat_required. \<not> missing lms i"
    by (auto simp: present_def missing_def)
  moreover from assms obtain k t s h where "lms ! LEFT_KNEE = Some k" "lms ! LEFT_FOOT_INDEX = Some t"
    "lms ! LEFT_SHOULDER = Some s" "lms ! LEFT_HIP = Some h"
    by (auto simp: squat_required_def present_def)
  ultimately show ?thesis
    by (simp add: squat_in_range joint_def joint_x_def joint_y_def)
qed

lemma sitting_missing:
  assumes "\<exists>i\<in>set sitting_required. missing lms i"
  shows "check_sitting_rules lms = []"
proof -
  from assms have "getitem lms LEFT_SHOULDER = Inl IndexError \<or> getitem lms LEFT_EAR = Inl IndexError
    \<or> getitem lms LEFT_HIP = Inl IndexError"
    by (auto simp: sitting_required_def getitem_missing)
  then show ?thesis
    using getitem_cases [of lms LEFT_SHOULDER] getitem_cases [of lms LEFT_EAR]
    unfolding check_sitting_rules_def by auto
qed

lemma sitting_in_range:
  assumes "\<forall>i\<in>set sitting_required. \<not> missing lms i"
  shows "check_sitting_rules lms =
     try_step [] (attr lm_x (lms ! LEFT_SHOULDER)) (\<lambda>shoulder_x.
     try_step [] (attr lm_y (lms ! LEFT_SHOULDER)) (\<lambda>shoulder_y.
     let vertical = (shoulder_x, shoulder_y - 1) in
     try_step [] (attr lm_x (lms ! LEFT_EAR)) (\<lambda>ear_x.
     try_step [] (attr lm_y (lms ! LEFT_EAR)) (\<lambda>ear_y.
     let issues =
       neck_bend_rule [] (calculate_angle (shoulder_x, shoulder_y) (ear_x, ear_y) vertical) in
     try_step issues (attr lm_x (lms ! LEFT_HIP)) (\<lambda>hip_x.
     try_step issues (attr lm_y (lms ! LEFT_HIP)) (\<lambda>hip_y.
     back_straight_rule issues
       (calculate_angle (shoulder_x, shoulder_y) (hip_x, hip_y) (hip_x, hip_y - 1))))))))"
  using assms
  by (simp add: check_sitting_rules_def sitting_required_def missing_def getitem_in)

lemma sitting_present:
  assumes "\<forall>i\<in>set sitting_required. present lms i"
  shows "check_sitting_rules lms =
     back_straight_rule
       (neck_bend_rule []
          (calculate_angle (joint lms LEFT_SHOULDER) (joint lms LEFT_EAR)
             (joint_x lms LEFT_SHOULDER, joint_y lms LEFT_SHOULDER - 1)))
       (calculate_angle (joint lms LEFT_SHOULDER) (joint lms LEFT_HIP)
          (joint_x lms LEFT_HIP, joint_y lms LEFT_HIP - 1))"
proof -
  from assms have "\<forall>i\<in>set sitting_required. \<not> missing lms i"
    by (auto simp: present_def missing_def)
  moreover from assms obtain e s h where "lms ! LEFT_EAR = Some e"
    "lms ! LEFT_SHOULDER = Some s" "lms ! LEFT_HIP = Some h"
    by (auto simp: sitting_required_def present_def)
  ultimately show ?thesis
    by (simp add: sitting_in_range joint_def joint_x_def joint_y_def)
qed

lemma linalg_norm_vertical [simp]: "linalg_norm (0, v) = \<bar>v\<bar>"
  by (simp add: linalg_norm_def)

lemma linalg_norm_horizontal [simp]: "linalg_norm (u, 0) = \<bar>u\<bar>"
  by (simp add: linalg_norm_def)

lemma digits_small: "n < 10 \<Longrightarrow> digits n = [digit_char n]"
  by (simp add: digits.simps)

lemma str_int_180: "str_int 180 = ''180''"
  by (simp add: str_int_def digits.simps[of 180] digits.simps[of 18] digits_small digit_char_def)

lemma angle_vertical_opposed:
  assumes "0 < d" "d < 1"
  shows "calculate_angle (sx, sy) (sx, sy - d) (sx, sy - 1) = Some 180"
proof -
  have "d * (d - 1) / (\<bar>d\<bar> * \<bar>d - 1\<bar>) = - 1"
    using assms by (simp add: abs_if field_simps)
  then show ?thesis using assms
    by (simp add: calculate_angle_def vsub_def np_dot_def np_clip_def np_degrees_def Let_def)
qed

lemma origin_pose_length [simp]: "length origin_pose = 33"
  by (simp add: origin_pose_def)

lemma origin_pose_nth: "i < 33 \<Longrightarrow> origin_pose ! i = lm_at 0 0"
  by (simp add: origin_pose_def)

lemma back_straight_rule_keeps: "set acc \<subseteq> set (back_straight_rule acc a)"
  by (auto simp: back_straight_rule_def split: option.splits)

lemma squat_first_rule_absent:
  assumes "absent lms LEFT_KNEE \<or> absent lms LEFT_FOOT_INDEX"
  shows "check_squat_rules lms = []"
proof (cases "\<exists>i\<in>set squat_required. missing lms i")
  case True
  then show ?thesis by (rule squat_missing)
next
  case False
  then have "\<forall>i\<in>set squat_required. \<not> missing lms i" by simp
  then show ?thesis using assms
    by (cases "lms ! LEFT_KNEE") (auto simp: squat_in_range absent_def)
qed

lemma squat_second_rule_absent:
  assumes "\<forall>i\<in>set squat_required. \<not> missing lms i"
    and "present lms LEFT_KNEE" and "present lms LEFT_FOOT_INDEX"
    and "absent lms LEFT_SHOULDER \<or> absent lms LEFT_HIP"
  shows "check_squat_rules lms =
    knee_over_toe [] (joint_x lms LEFT_KNEE) (joint_x lms LEFT_FOOT_INDEX)"
proof -
  from assms(2,3) obtain k t where "lms ! LEFT_KNEE = Some k" "lms ! LEFT_FOOT_INDEX = Some t"
    by (auto simp: present_def)
  then show ?thesis using assms(1,4)
    by (cases "lms ! LEFT_SHOULDER") (auto simp: squat_in_range absent_def joint_x_def)
qed

lemma sitting_first_rule_absent:
  assumes "absent lms LEFT_SHOULDER \<or> absent lms LEFT_EAR"
  shows "check_sitting_rules lms = []"
proof (cases "\<exists>i\<in>set sitting_required. missing lms i")
  case True
  then show ?thesis by (rule sitting_missing)
next
  case False
  then have "\<forall>i\<in>set sitting_required. \<not> missing lms i" by simp
  then show ?thesis using assms
    by (cases "lms ! LEFT_SHOULDER") (auto simp: sitting_in_range absent_def)
qed

lemma sitting_second_rule_absent:
  assumes "\<forall>i\<in>set sitting_required. \<not> missing lms i"
    and "present lms LEFT_SHOULDER" and "present lms LEFT_EAR"
    and "absent lms LEFT_HIP"
  shows "check_sitting_rules lms =
    neck_bend_rule []
      (calculate_angle (joint lms LEFT_SHOULDER) (joint lms LEFT_EAR)
         (joint_x lms LEFT_SHOULDER, joint_y lms LEFT_SHOULDER - 1))"
proof -
  from assms(2,3) obtain s e where "lms ! LEFT_SHOULDER = Some s" "lms ! LEFT_EAR = Some e"
    by (auto simp: present_def)
  then show ?thesis using assms(1,4)
    by (auto simp: sitting_in_range absent_def joint_x_def joint_y_def joint_def)
qed

lemmas example_defs = knee_at_def no_shoulder_def short_pose_def
  upright_def upright_no_hip_def origin_pose_nth lm_at_def PoseLandmark_defs

subsection \<open>Failure semantics of the rule evaluators\<close>

text \<open>
  C1, as the claim states it, fails: with the shoulder entry absent and the knee beyond the
  toe, the squat evaluator has appended ``Left knee over toe'' before the back-angle rule
  reads the shoulder, and the handler returns that list.
\<close>

theorem evaluator_absent_shoulder_counterexample:
  "LEFT_SHOULDER \<in> set squat_required \<and> absent no_shoulder LEFT_SHOULDER
   \<and> check_squat_rules no_shoulder \<noteq> []"
  by (simp add: squat_required_def absent_def check_squat_rules_def getitem_def knee_over_toe_def
      example_defs)

text \<open>
  C1 (amended). No exception escapes either evaluator (both are total and return a list
  of issues). An evaluator returns the empty list when a required landmark is missing from
  the sequence, or when a landmark that its first rule reads is absent (squat: knee or toe;
  sitting: shoulder or ear). When only a landmark that the second rule reads is absent
  (squat: shoulder or hip; sitting: hip), it returns what the first rule appended.
\<close>

theorem evaluator_failure_issues:
  "((\<exists>i\<in>set squat_required. missing lms i) \<or> absent lms LEFT_KNEE \<or> absent lms LEFT_FOOT_INDEX
      \<longrightarrow> check_squat_rules lms = [])
   \<and> ((\<forall>i\<in>set squat_required. \<not> missing lms i) \<and> present lms LEFT_KNEE
        \<and> present lms LEFT_FOOT_INDEX \<and> (absent lms LEFT_SHOULDER \<or> absent lms LEFT_HIP)
      \<longrightarrow> check_squat_rules lms =
            knee_over_toe [] (joint_x lms LEFT_KNEE) (joint_x lms LEFT_FOOT_INDEX))
   \<and> ((\<exists>i\<in>set sitting_required. missing lms i) \<or> absent lms LEFT_SHOULDER \<or> absent lms LEFT_EAR
      \<longrightarrow> check_sitting_rules lms = [])
   \<and> ((\<forall>i\<in>set sitting_required. \<not> missing lms i) \<and> present lms LEFT_SHOULDER
        \<and> present lms LEFT_EAR \<and> absent lms LEFT_HIP
      \<longrightarrow> check_sitting_rules lms =
            neck_bend_rule []
              (calculate_angle (joint lms LEFT_SHOULDER) (joint lms LEFT_EAR)
                 (joint_x lms LEFT_SHOULDER, joint_y lms LEFT_SHOULDER - 1)))"
  using squat_missing [of lms] squat_first_rule_absent [of lms] squat_second_rule_absent [of lms]
    sitting_missing [of lms] sitting_first_rule_absent [of lms] sitting_second_rule_absent [of lms]
  by blast

theorem evaluator_failure_issues_witness:
  "missing short_pose LEFT_FOOT_INDEX \<and> check_squat_rules short_pose = []
   \<and> absent no_shoulder LEFT_SHOULDER \<and> check_squat_rules no_shoulder = [''Left knee over toe'']
   \<and> absent (upright[LEFT_EAR := None]) LEFT_EAR \<and> check_sitting_rules (upright[LEFT_EAR := None]) = []
   \<and> absent upright_no_hip LEFT_HIP
   \<and> check_sitting_rules upright_no_hip = [''Neck bend too large: 180'' @ [degree_sign]]"
proof -
  have 1: "missing short_pose LEFT_FOOT_INDEX" "LEFT_FOOT_INDEX \<in> set squat_required"
    by (simp_all add: missing_def short_pose_def squat_required_def PoseLandmark_defs)
  have 2: "\<forall>i\<in>set squat_required. \<not> missing no_shoulder i" "present no_shoulder LEFT_KNEE"
    "present no_shoulder LEFT_FOOT_INDEX" "absent no_shoulder LEFT_SHOULDER"
    by (simp_all add: missing_def present_def absent_def squat_required_def example_defs)
  have 3: "absent (upright[LEFT_EAR := None]) LEFT_EAR"
    by (simp add: absent_def example_defs)
  have 4: "\<forall>i\<in>set sitting_required. \<not> missing upright_no_hip i" "present upright_no_hip LEFT_SHOULDER"
    "present upright_no_hip LEFT_EAR" "absent upright_no_hip LEFT_HIP"
    by (simp_all add: missing_def present_def absent_def sitting_required_def example_defs)
  have k: "knee_over_toe [] (joint_x no_shoulder LEFT_KNEE) (joint_x no_shoulder LEFT_FOOT_INDEX)
     = [''Left knee over toe'']"
    by (simp add: knee_over_toe_def joint_x_def example_defs)
  have n: "neck_bend_rule []
              (calculate_angle (joint upright_no_hip LEFT_SHOULDER) (joint upright_no_hip LEFT_EAR)
                 (joint_x upright_no_hip LEFT_SHOULDER, joint_y upright_no_hip LEFT_SHOULDER - 1))
     = [''Neck bend too large: 180'' @ [degree_sign]]"
    using angle_vertical_opposed [of "1/4" "1/2" "1/2"]
    by (simp add: neck_bend_rule_def joint_def joint_x_def joint_y_def example_defs
         angle_message_def py_int_def str_int_180)
  show ?thesis
    using evaluator_failure_issues [of short_pose] evaluator_failure_issues [of no_shoulder]
      evaluator_failure_issues [of "upright[LEFT_EAR := None]"]
      evaluator_failure_issues [of upright_no_hip] 1 2 3 4 k n
    by metis
qed

subsection \<open>Geometry\<close>

lemma f64_exponent_binade:
  assumes "2 powi k \<le> \<bar>v\<bar>" and "\<bar>v\<bar> < 2 powi (k + 1)"
  shows "f64_exponent v = max (k - 52) (- 1074)"
proof -
  have pos: "0 < \<bar>v\<bar>"
    using assms(1) by (smt (verit) zero_less_power_int)
  have "(2::real) powr (of_int k) = 2 powi k" "(2::real) powr (of_int k + 1) = 2 powi (k + 1)"
    using powr_real_of_int' [of 2 k] powr_real_of_int' [of 2 "k + 1"] by simp_all
  with assms have "2 powr (of_int k) \<le> \<bar>v\<bar> \<and> \<bar>v\<bar> < 2 powr (of_int k + 1)"
    by simp
  then have "\<lfloor>log 2 \<bar>v\<bar>\<rfloor> = k"
    using pos by (simp add: floor_log_eq_powr_iff)
  then show ?thesis by (simp add: f64_exponent_def)
qed

lemma f64_round_zero: "f64_round 0 = Some 0"
  by (simp add: f64_round_def)

lemma f64_round_one: "f64_round 1 = Some 1"
proof -
  have "f64_exponent 1 = - 52"
    using f64_exponent_binade [of 0 1] by simp
  then show ?thesis
    by (simp add: f64_round_def round_half_even_def Let_def power_int_minus)
qed

lemma f64_round_two: "f64_round 2 = Some 2"
proof -
  have "f64_exponent 2 = - 51"
    using f64_exponent_binade [of 1 2] by simp
  then show ?thesis
    by (simp add: f64_round_def round_half_even_def Let_def power_int_minus)
qed

lemma tiny_pos: "0 < tiny"
  by (simp add: tiny_def)

lemma f64_round_tiny: "f64_round tiny = Some tiny"
proof -
  have "f64_exponent (1 / 2 ^ 60) = - 112"
    using f64_exponent_binade [of "- 60" "1 / 2 ^ 60"] by (simp add: power_int_minus field_simps)
  then show ?thesis
    by (simp add: tiny_def f64_round_def round_half_even_def Let_def power_int_minus)
qed

lemma f64_round_absorbed: "f64_round (tiny + 1) = Some 1"
proof -
  have "f64_exponent (1 / 2 ^ 60 + 1) = - 52"
    using f64_exponent_binade [of 0 "1 / 2 ^ 60 + 1"] by simp
  then show ?thesis
    by (simp add: tiny_def f64_round_def round_half_even_def Let_def power_int_minus)
qed

text \<open>
  C10, as the claim states it, fails when the translation itself rounds: moving
  \<open>(tiny, 0)\<close>, \<open>(0, 0)\<close> and \<open>(0, tiny)\<close> by \<open>(1, 0)\<close> with float addition puts the
  first point on the vertex, and the right angle becomes NaN.
\<close>

theorem translation_rounding_counterexample:
  "vsub (tiny, 0) (0, 0) \<noteq> (0, 0) \<and> vsub (0, tiny) (0, 0) \<noteq> (0, 0)
   \<and> translate_f64 (tiny, 0) (1, 0) = Some (1, 0)
   \<and> translate_f64 (0, 0) (1, 0) = Some (1, 0)
   \<and> translate_f64 (0, tiny) (1, 0) = Some (1, tiny)
   \<and> calculate_angle (1, 0) (1, 0) (1, tiny) = None
   \<and> calculate_angle (tiny, 0) (0, 0) (0, tiny) = Some 90"
proof -
  have t: "translate_f64 (tiny, 0) (1, 0) = Some (1, 0)"
    "translate_f64 (0, 0) (1, 0) = Some (1, 0)"
    "translate_f64 (0, tiny) (1, 0) = Some (1, tiny)"
    by (simp_all add: translate_f64_def f64_add_def f64_round_zero f64_round_one f64_round_tiny
        f64_round_absorbed)
  have n: "calculate_angle (1, 0) (1, 0) (1, tiny) = None"
    by (simp add: calculate_angle_def vsub_def)
  have s: "calculate_angle (tiny, 0) (0, 0) (0, tiny) = Some 90"
    using tiny_pos
    by (simp add: calculate_angle_def vsub_def np_dot_def np_clip_def np_degrees_def)
  have v: "vsub (tiny, 0) (0, 0) \<noteq> (0, 0)" "vsub (0, tiny) (0, 0) \<noteq> (0, 0)"
    using tiny_pos by (simp_all add: vsub_def)
  from v t n s show ?thesis by (intro conjI)
qed

text \<open>
  C10 (amended). When the three translated points are the exact sums (the float additions
  of the translation do not round), \<open>calculate_angle\<close> gives the same result for the
  translated points as for the original ones, and each angle rule therefore appends the
  same issue or none.
\<close>

theorem calculate_angle_exact_translation:
  assumes "translate_f64 a t = Some (vadd a t)"
    and "translate_f64 b t = Some (vadd b t)"
    and "translate_f64 c t = Some (vadd c t)"
  shows "calculate_angle (vadd a t) (vadd b t) (vadd c t) = calculate_angle a b c
         \<and> back_angle_rule acc (calculate_angle (vadd a t) (vadd b t) (vadd c t))
             = back_angle_rule acc (calculate_angle a b c)
         \<and> neck_bend_rule acc (calculate_angle (vadd a t) (vadd b t) (vadd c t))
             = neck_bend_rule acc (calculate_angle a b c)
         \<and> back_straight_rule acc (calculate_angle (vadd a t) (vadd b t) (vadd c t))
             = back_straight_rule acc (calculate_angle a b c)"
proof -
  have "vsub (vadd a t) (vadd b t) = vsub a b" "vsub (vadd c t) (vadd b t) = vsub c b"
    by (simp_all add: vsub_def vadd_def)
  then have "calculate_angle (vadd a t) (vadd b t) (vadd c t) = calculate_angle a b c"
    by (simp add: calculate_angle_def)
  then show ?thesis by simp
qed

theorem calculate_angle_exact_translation_witness:
  "translate_f64 (0, 0) (1, 1) = Some (1, 1) \<and> translate_f64 (0, 1) (1, 1) = Some (1, 2)
   \<and> translate_f64 (1, 1) (1, 1) = Some (2, 2)
   \<and> calculate_angle (1, 1) (1, 2) (2, 2) = calculate_angle (0, 0) (0, 1) (1, 1)"
proof -
  have t: "translate_f64 (0, 0) (1, 1) = Some (1, 1)" "translate_f64 (0, 1) (1, 1) = Some (1, 2)"
    "translate_f64 (1, 1) (1, 1) = Some (2, 2)"
    by (simp_all add: translate_f64_def f64_add_def f64_round_one f64_round_two)
  have v: "vadd (0, 0) (1, 1) = (1, 1)" "vadd (0, 1) (1, 1) = (1, 2)" "vadd (1, 1) (1, 1) = (2, 2)"
    by (simp_all add: vadd_def)
  from calculate_angle_exact_translation [of "(0, 0)" "(1, 1)" "(0, 1)" "(1, 1)"] t
  have "calculate_angle (1, 1) (1, 2) (2, 2) = calculate_angle (0, 0) (0, 1) (1, 1)"
    by (simp add: v)
  with t show ?thesis by (intro conjI)
qed

subsection \<open>Squat rules\<close>

lemma knee_message_not_back [simp]:
  "angle_message ''Back angle too small: '' v \<noteq> ''Left knee over toe''"
  "''Left knee over toe'' \<noteq> angle_message ''Back angle too small: '' v"
  by (simp_all add: angle_message_def)

text \<open>
  C5. When all required squat landmarks are present, the issue ``Left knee over toe'' is in
  the output of the squat evaluator exactly when the x coordinate of the left knee is
  strictly greater than that of the left toe.
\<close>

theorem knee_over_toe_iff:
  assumes "list_all (present lms) squat_required"
  shows "''Left knee over toe'' \<in> set (check_squat_rules lms)
           \<longleftrightarrow> joint_x lms LEFT_KNEE > joint_x lms LEFT_FOOT_INDEX"
  by (simp add: squat_present [OF assms [unfolded list_all_iff]] back_angle_rule_def knee_over_toe_def split: option.splits)

theorem knee_over_toe_iff_witness:
  "(list_all (present (knee_at (6/10))) squat_required)
   \<and> joint_x (knee_at (6/10)) LEFT_KNEE = 6/10 \<and> joint_x (knee_at (6/10)) LEFT_FOOT_INDEX = 5/10
   \<and> ''Left knee over toe'' \<in> set (check_squat_rules (knee_at (6/10)))
   \<and> (list_all (present (knee_at (4/10))) squat_required)
   \<and> joint_x (knee_at (4/10)) LEFT_KNEE = 4/10 \<and> joint_x (knee_at (4/10)) LEFT_FOOT_INDEX = 5/10
   \<and> ''Left knee over toe'' \<notin> set (check_squat_rules (knee_at (4/10)))"
proof -
  have p: "list_all (present (knee_at kx)) squat_required" for kx
    by (simp add: squat_required_def present_def example_defs)
  have x: "joint_x (knee_at kx) LEFT_KNEE = kx" "joint_x (knee_at kx) LEFT_FOOT_INDEX = 5/10" for kx
    by (simp_all add: joint_x_def example_defs)
  show ?thesis
    using knee_over_toe_iff [OF p [of "6/10"]] knee_over_toe_iff [OF p [of "4/10"]] p
    by (simp add: x)
qed

subsection \<open>Sitting rules\<close>

text \<open>
  C4. The neck rule takes the angle at the ear between the shoulder and the point one unit
  above the shoulder. With the ear straight above the shoulder, by less than one unit as in
  normalised image coordinates, the two arms point in opposite directions: the angle is
  180 degrees, not 0, and the evaluator reports ``Neck bend too large: 180'' for an
  upright neck.
\<close>

theorem upright_neck_flagged:
  assumes "list_all (present lms) sitting_required"
    and "joint_x lms LEFT_EAR = joint_x lms LEFT_SHOULDER"
    and "joint_y lms LEFT_SHOULDER - 1 < joint_y lms LEFT_EAR"
    and "joint_y lms LEFT_EAR < joint_y lms LEFT_SHOULDER"
  shows "calculate_angle (joint lms LEFT_SHOULDER) (joint lms LEFT_EAR)
           (joint_x lms LEFT_SHOULDER, joint_y lms LEFT_SHOULDER - 1) = Some 180
         \<and> ''Neck bend too large: 180'' @ [degree_sign] \<in> set (check_sitting_rules lms)"
proof -
  let ?d = "joint_y lms LEFT_SHOULDER - joint_y lms LEFT_EAR"
  have d: "0 < ?d" "?d < 1" using assms(3,4) by simp_all
  have "calculate_angle (joint_x lms LEFT_SHOULDER, joint_y lms LEFT_SHOULDER)
           (joint_x lms LEFT_SHOULDER, joint_y lms LEFT_SHOULDER - ?d)
           (joint_x lms LEFT_SHOULDER, joint_y lms LEFT_SHOULDER - 1) = Some 180"
    by (rule angle_vertical_opposed [OF d])
  then have a: "calculate_angle (joint lms LEFT_SHOULDER) (joint lms LEFT_EAR)
           (joint_x lms LEFT_SHOULDER, joint_y lms LEFT_SHOULDER - 1) = Some 180"
    using assms(2) by (simp add: joint_def)
  have "''Neck bend too large: 180'' @ [degree_sign] \<in> set (neck_bend_rule [] (Some 180))"
    by (simp add: neck_bend_rule_def angle_message_def py_int_def str_int_180)
  then show ?thesis
    using back_straight_rule_keeps a by (auto simp: sitting_present [OF assms(1) [unfolded list_all_iff]])
qed

theorem upright_neck_flagged_witness:
  "(list_all (present upright) sitting_required)
   \<and> joint_x upright LEFT_EAR = joint_x upright LEFT_SHOULDER
   \<and> joint_y upright LEFT_SHOULDER - 1 < joint_y upright LEFT_EAR
   \<and> joint_y upright LEFT_EAR < joint_y upright LEFT_SHOULDER
   \<and> ''Neck bend too large: 180'' @ [degree_sign] \<in> set (check_sitting_rules upright)"
proof -
  have p: "list_all (present upright) sitting_required"
    by (simp add: sitting_required_def present_def example_defs)
  have c: "joint_x upright LEFT_EAR = joint_x upright LEFT_SHOULDER"
    "joint_y upright LEFT_SHOULDER - 1 < joint_y upright LEFT_EAR"
    "joint_y upright LEFT_EAR < joint_y upright LEFT_SHOULDER"
    by (simp_all add: joint_x_def joint_y_def example_defs)
  show ?thesis
    using upright_neck_flagged [OF p c] p c by simp
qed

subsection \<open>The video pipeline\<close>

lemma os_remove_written:
  "os_remove temp_path (write_temp temp_path content fs) = Inr (fs(temp_path := None))"
  by (simp add: os_remove_def write_temp_def)

lemma write_temp_read [simp]: "write_temp temp_path content fs temp_path = Some content"
  by (simp add: write_temp_def)

lemma sampled_Nil [simp]: "sampled start [] = []"
  by (simp add: sampled_def)

lemma sampled_Cons:
  "sampled start (img # rest) =
     (if start mod frame_skip = 0 then [(start, img)] else []) @ sampled (Suc start) rest"
  by (simp add: sampled_def)

lemma length_pose_outputs [simp]: "length (pose_outputs sv pose video) = length video"
  by (induction video arbitrary: pose) (simp_all add: split_def Let_def)

lemma frame_loop_eq:
  "frame_loop sv activity pose video start acc =
     acc @ map (\<lambda>(p, d). \<lparr>issues = issues (pose_feedback activity d),
                            keypoints = keypoints (pose_feedback activity d), frame = fst p\<rparr>)
             (zip (sampled start video) (pose_outputs sv pose (map snd (sampled start video))))"
proof (induction video arbitrary: pose start acc)
  case Nil
  show ?case by simp
next
  case (Cons img rest)
  show ?case
  proof (cases "start mod frame_skip = 0")
    case True
    then show ?thesis
      by (simp add: Cons.IH sampled_Cons split_def Let_def)
  next
    case False
    then show ?thesis
      by (simp add: Cons.IH sampled_Cons)
  qed
qed

lemma sampled_indices:
  "map fst (sampled start video) = filter (\<lambda>i. i mod frame_skip = 0) [start..<start + length video]"
proof (induction video arbitrary: start)
  case Nil
  show ?case by simp
next
  case (Cons img rest)
  have "[start..<start + length (img # rest)] = start # [Suc start..<Suc start + length rest]"
    by (subst upt_rec) simp
  then show ?case
    by (simp only: sampled_Cons Cons.IH map_append) simp
qed

lemma map_fst_of_zip:
  "length xs = length ys \<Longrightarrow> map (\<lambda>p. f (fst p)) (zip xs ys) = map f xs"
  by (induction xs ys rule: list_induct2) simp_all

lemma multiples_below:
  "filter (\<lambda>i. i mod frame_skip = 0) [0..<n]
     = map (\<lambda>k. k * frame_skip) [0..<(n + (frame_skip - 1)) div frame_skip]"
proof (induction n)
  case 0
  show ?case by (simp add: frame_skip_def)
next
  case (Suc n)
  show ?case
  proof (cases "n mod frame_skip = 0")
    case True
    then have "(Suc n + (frame_skip - 1)) div frame_skip = Suc ((n + (frame_skip - 1)) div frame_skip)"
      and "(n + (frame_skip - 1)) div frame_skip * frame_skip = n"
      unfolding frame_skip_def by presburger+
    with True Suc show ?thesis by simp
  next
    case False
    then have "(Suc n + (frame_skip - 1)) div frame_skip = (n + (frame_skip - 1)) div frame_skip"
      unfolding frame_skip_def by presburger
    with False Suc show ?thesis by simp
  qed
qed

lemma analyze_video_eq:
  "analyze_video sv file activity temp_path fs =
     (Inr \<lparr>frames = frame_loop sv activity (Pose sv False) (video_frames sv file) 0 []\<rparr>,
      fs(temp_path := None))"
  by (simp add: analyze_video_def Let_def os_remove_written video_frames_def split: option.splits)

lemma frames_of_video:
  "map frame (frame_loop sv activity pose video start []) = map fst (sampled start video)"
proof -
  have "map frame (frame_loop sv activity pose video start []) =
     map (\<lambda>p. fst (fst p))
       (zip (sampled start video) (pose_outputs sv pose (map snd (sampled start video))))"
    by (simp add: frame_loop_eq split_def)
  also have "\<dots> = map fst (sampled start video)"
    by (rule map_fst_of_zip) simp
  finally show ?thesis .
qed

text \<open>
  C2. \<open>analyze_video\<close> returns, for every upload, one frame result for each frame whose
  index (counted from 0) is divisible by the stride, in increasing order and for no other
  frame: the frame indices of the results are 0, 5, 10, ... below the number of frames.
  On twelve frames they are 0, 5 and 10.
\<close>

theorem video_frame_indices:
  "\<exists>r fs'. analyze_video sv file activity temp_path fs = (Inr r, fs')
     \<and> map frame (frames r)
         = filter (\<lambda>i. i mod frame_skip = 0) [0..<length (video_frames sv file)]
     \<and> map frame (frames r)
         = map (\<lambda>k. k * frame_skip)
             [0..<(length (video_frames sv file) + (frame_skip - 1)) div frame_skip]
     \<and> (length (video_frames sv file) = 12 \<longrightarrow> map frame (frames r) = [0, 5, 10])"
proof -
  define r where "r = \<lparr>frames = frame_loop sv activity (Pose sv False) (video_frames sv file) 0 []\<rparr>"
  have run: "analyze_video sv file activity temp_path fs = (Inr r, fs(temp_path := None))"
    by (simp add: analyze_video_eq r_def)
  have a: "map frame (frames r)
         = filter (\<lambda>i. i mod frame_skip = 0) [0..<length (video_frames sv file)]"
    by (simp add: r_def frames_of_video sampled_indices)
  have b: "map frame (frames r) = map (\<lambda>k. k * frame_skip)
             [0..<(length (video_frames sv file) + (frame_skip - 1)) div frame_skip]"
    unfolding a by (rule multiples_below)
  have "map (\<lambda>k. k * frame_skip) [0..<(12 + (frame_skip - 1)) div frame_skip] = [0, 5, 10]"
    by (simp add: frame_skip_def upt_rec)
  then have c: "length (video_frames sv file) = 12 \<longrightarrow> map frame (frames r) = [0, 5, 10]"
    unfolding b by simp
  show ?thesis
    using run a b c by (intro exI conjI)
qed

theorem video_frame_indices_witness:
  "length (video_frames toy twelve_frames) = 12
   \<and> (\<exists>r fs'. analyze_video toy twelve_frames ''squat'' 0 no_files = (Inr r, fs')
        \<and> map frame (frames r) = [0, 5, 10])"
proof -
  have n: "length (video_frames toy twelve_frames) = 12"
    by (simp add: video_frames_def toy_def twelve_frames_def)
  from video_frame_indices [of toy twelve_frames "''squat''" 0 no_files] n
  show ?thesis by (elim exE conjE) (intro conjI exI, assumption+, simp)
qed

subsection \<open>Both pipelines\<close>

lemma analyze_frame_undecodable:
  assumes "imread sv (Some file) = None"
  shows "analyze_frame sv file activity temp_path fs = (Inl CvError, write_temp temp_path file fs)"
  using assms by (simp add: analyze_frame_def cv2_cvtColor_def Let_def)

lemma analyze_frame_decoded:
  assumes "imread sv (Some file) = Some img"
  shows "analyze_frame sv file activity temp_path fs =
     (Inr (pose_feedback activity (fst (process sv (Pose sv True) (cvtColor sv img)))),
      fs(temp_path := None))"
  using assms by (simp add: analyze_frame_def cv2_cvtColor_def Let_def os_remove_written)

lemma rule_issues_Nil [simp]: "rule_issues activity [] = []"
proof -
  have "missing [] LEFT_KNEE" "missing [] LEFT_SHOULDER"
    by (simp_all add: missing_def)
  then have "check_squat_rules [] = []" "check_sitting_rules [] = []"
    by (auto intro!: squat_missing sitting_missing simp: squat_required_def sitting_required_def)
  then show ?thesis by (simp add: rule_issues_def)
qed

lemma keypoints_feedback_empty:
  "keypoints (pose_feedback activity d) = [] \<longleftrightarrow> d = None \<or> d = Some []"
  by (cases d) (simp_all add: pose_feedback_def)

lemma feedback_empty_issues:
  "keypoints (pose_feedback activity d) = [] \<Longrightarrow> issues (pose_feedback activity d) = []"
  by (cases d) (auto simp: pose_feedback_def)

lemma feedback_unknown_activity:
  "activity \<noteq> ''squat'' \<Longrightarrow> activity \<noteq> ''sitting'' \<Longrightarrow> issues (pose_feedback activity d) = []"
  by (cases d) (simp_all add: pose_feedback_def rule_issues_def)

lemma pose_outputs_contract:
  "pose_contract sv \<Longrightarrow> d \<in> set (pose_outputs sv pose video) \<Longrightarrow> d \<noteq> Some []"
proof (induction video arbitrary: pose)
  case Nil
  then show ?case by simp
next
  case (Cons img rest)
  obtain res pose' where p: "process sv pose (cvtColor sv img) = (res, pose')"
    by (cases "process sv pose (cvtColor sv img)")
  from Cons.prems(1) have "fst (process sv pose (cvtColor sv img)) \<noteq> Some []"
    unfolding pose_contract_def by blast
  with p have "res \<noteq> Some []" by simp
  with Cons p show ?case by auto
qed

lemma map_snd_of_zip:
  "length xs = length ys \<Longrightarrow> map (\<lambda>p. f (snd p)) (zip xs ys) = map f ys"
  by (induction xs ys rule: list_induct2) simp_all

lemma video_keypoints:
  "map keypoints (frame_loop sv activity pose video start [])
     = map (\<lambda>d. keypoints (pose_feedback activity d))
         (pose_outputs sv pose (map snd (sampled start video)))"
proof -
  have "map keypoints (frame_loop sv activity pose video start []) =
     map (\<lambda>p. keypoints (pose_feedback activity (snd p)))
       (zip (sampled start video) (pose_outputs sv pose (map snd (sampled start video))))"
    by (simp add: frame_loop_eq split_def)
  also have "\<dots> = map (\<lambda>d. keypoints (pose_feedback activity d))
         (pose_outputs sv pose (map snd (sampled start video)))"
    by (rule map_snd_of_zip) simp
  finally show ?thesis .
qed

lemma video_result_shape:
  assumes "r \<in> set (frame_loop sv activity pose video start [])"
  shows "\<exists>d. keypoints r = keypoints (pose_feedback activity d)
            \<and> issues r = issues (pose_feedback activity d)"
  using assms by (auto simp: frame_loop_eq)

lemma toy_contract: "pose_contract toy"
  by (simp add: pose_contract_def toy_def visible_body_def)

lemma toy_imread: "imread toy (Some [v]) = Some v" "imread toy (Some []) = None"
  by (simp_all add: toy_def)

lemma toy_process:
  "fst (process toy pose (cvtColor toy img)) = (if img then Some visible_body else None)"
  by (simp add: toy_def)

lemma toy_frame:
  "analyze_frame toy [v] activity temp_path fs =
     (Inr (pose_feedback activity (if v then Some visible_body else None)), fs(temp_path := None))"
  by (simp add: analyze_frame_decoded [OF toy_imread(1)] toy_process)

lemma toy_video_detections:
  "video_detections toy twelve_frames = [Some visible_body, None, Some visible_body]"
  by (simp add: video_detections_def video_frames_def toy_def twelve_frames_def sampled_Cons
      frame_skip_def)

text \<open>
  C7. Under the contract of the pose service (a detected body has landmarks), the
  keypoints of every result are empty exactly when no body was detected: for the image of
  \<open>analyze_frame\<close>, and for each sampled frame of \<open>analyze_video\<close> in order. Whenever
  the keypoints of a result are empty, so are its issues.
\<close>

theorem keypoints_empty_iff_undetected:
  assumes "pose_contract sv"
  shows "(\<forall>r. fst (analyze_frame sv file activity temp_path fs) = Inr r \<longrightarrow>
            (keypoints r = [] \<longleftrightarrow> image_detection sv file = None)
            \<and> (keypoints r = [] \<longrightarrow> issues r = []))
         \<and> (\<exists>v fs'. analyze_video sv file activity temp_path fs = (Inr v, fs')
              \<and> map (\<lambda>r. keypoints r = []) (frames v)
                  = map (\<lambda>d. d = None) (video_detections sv file)
              \<and> (\<forall>r\<in>set (frames v). keypoints r = [] \<longrightarrow> issues r = []))"
proof (intro conjI allI impI)
  fix r
  assume run: "fst (analyze_frame sv file activity temp_path fs) = Inr r"
  then obtain img where img: "imread sv (Some file) = Some img"
    by (cases "imread sv (Some file)") (simp_all add: analyze_frame_undecodable)
  let ?d = "fst (process sv (Pose sv True) (cvtColor sv img))"
  from run img have r: "r = pose_feedback activity ?d"
    by (simp add: analyze_frame_decoded)
  have d: "image_detection sv file = ?d"
    by (simp add: image_detection_def img)
  from assms have "?d \<noteq> Some []"
    unfolding pose_contract_def by blast
  then show "keypoints r = [] \<longleftrightarrow> image_detection sv file = None"
    by (simp add: r d keypoints_feedback_empty)
  show "issues r = []" if "keypoints r = []"
    using that by (simp add: r feedback_empty_issues)
next
  define v where "v = \<lparr>frames = frame_loop sv activity (Pose sv False) (video_frames sv file) 0 []\<rparr>"
  have run: "analyze_video sv file activity temp_path fs = (Inr v, fs(temp_path := None))"
    by (simp add: analyze_video_eq v_def)
  have "map (\<lambda>r. keypoints r = []) (frames v) = map (\<lambda>k. k = []) (map keypoints (frames v))"
    by simp
  also have "\<dots> = map (\<lambda>d. keypoints (pose_feedback activity d) = []) (video_detections sv file)"
    by (simp add: v_def video_keypoints video_detections_def)
  also have "\<dots> = map (\<lambda>d. d = None) (video_detections sv file)"
    using pose_outputs_contract [OF assms]
    by (intro map_cong refl) (auto simp: video_detections_def keypoints_feedback_empty)
  finally have k: "map (\<lambda>r. keypoints r = []) (frames v)
      = map (\<lambda>d. d = None) (video_detections sv file)" .
  have i: "\<forall>r\<in>set (frames v). keypoints r = [] \<longrightarrow> issues r = []"
    using video_result_shape feedback_empty_issues unfolding v_def by fastforce
  show "\<exists>v fs'. analyze_video sv file activity temp_path fs = (Inr v, fs')
              \<and> map (\<lambda>r. keypoints r = []) (frames v)
                  = map (\<lambda>d. d = None) (video_detections sv file)
              \<and> (\<forall>r\<in>set (frames v). keypoints r = [] \<longrightarrow> issues r = [])"
    using run k i by (intro exI conjI)
qed

theorem keypoints_empty_iff_undetected_witness:
  "pose_contract toy
   \<and> (\<exists>r. fst (analyze_frame toy [False] ''squat'' 0 no_files) = Inr r
         \<and> image_detection toy [False] = None \<and> keypoints r = [] \<and> issues r = [])
   \<and> (\<exists>v fs'. analyze_video toy twelve_frames ''squat'' 0 no_files = (Inr v, fs')
         \<and> map (\<lambda>r. keypoints r = []) (frames v) = [False, True, False])"
proof -
  have f: "\<exists>r. fst (analyze_frame toy [False] ''squat'' 0 no_files) = Inr r"
    by (simp add: toy_frame)
  have d: "image_detection toy [False] = None"
    by (simp add: image_detection_def toy_imread toy_process)
  note t = keypoints_empty_iff_undetected [OF toy_contract, of "[False]" "''squat''" 0 no_files]
    keypoints_empty_iff_undetected [OF toy_contract, of twelve_frames "''squat''" 0 no_files]
  from t(1) f d have 1: "\<exists>r. fst (analyze_frame toy [False] ''squat'' 0 no_files) = Inr r
         \<and> image_detection toy [False] = None \<and> keypoints r = [] \<and> issues r = []"
    by auto
  from t(2) have 2: "\<exists>v fs'. analyze_video toy twelve_frames ''squat'' 0 no_files = (Inr v, fs')
         \<and> map (\<lambda>r. keypoints r = []) (frames v) = [False, True, False]"
    by (auto simp: toy_video_detections visible_body_def)
  from toy_contract 1 2 show ?thesis by (intro conjI)
qed

text \<open>
  C8. For an activity name other than ``squat'' and ``sitting'', \<open>analyze_video\<close> returns
  normally and every frame result has no issues, and \<open>analyze_frame\<close> on an image that
  decodes returns normally with no issues.
\<close>

theorem unknown_activity_no_issues:
  assumes "activity \<noteq> ''squat''" and "activity \<noteq> ''sitting''"
  shows "(\<exists>v fs'. analyze_video sv file activity temp_path fs = (Inr v, fs')
            \<and> (\<forall>r\<in>set (frames v). issues r = []))
         \<and> (imread sv (Some file) \<noteq> None \<longrightarrow>
              (\<exists>r fs'. analyze_frame sv file activity temp_path fs = (Inr r, fs') \<and> issues r = []))"
proof (intro conjI impI)
  define v where "v = \<lparr>frames = frame_loop sv activity (Pose sv False) (video_frames sv file) 0 []\<rparr>"
  have run: "analyze_video sv file activity temp_path fs = (Inr v, fs(temp_path := None))"
    by (simp add: analyze_video_eq v_def)
  have i: "\<forall>r\<in>set (frames v). issues r = []"
    using video_result_shape feedback_unknown_activity [OF assms] unfolding v_def by fastforce
  show "\<exists>v fs'. analyze_video sv file activity temp_path fs = (Inr v, fs')
            \<and> (\<forall>r\<in>set (frames v). issues r = [])"
    using run i by (intro exI conjI)
next
  assume "imread sv (Some file) \<noteq> None"
  then obtain img where "imread sv (Some file) = Some img" by blast
  then show "\<exists>r fs'. analyze_frame sv file activity temp_path fs = (Inr r, fs') \<and> issues r = []"
    by (simp add: analyze_frame_decoded feedback_unknown_activity [OF assms])
qed

theorem unknown_activity_no_issues_witness:
  "''plank'' \<noteq> ''squat'' \<and> ''plank'' \<noteq> ''sitting'' \<and> imread toy (Some [True]) \<noteq> None
   \<and> (\<exists>r fs'. analyze_frame toy [True] ''plank'' 0 no_files = (Inr r, fs')
         \<and> issues r = [] \<and> keypoints r \<noteq> [])
   \<and> (\<exists>v fs'. analyze_video toy twelve_frames ''plank'' 0 no_files = (Inr v, fs')
         \<and> map issues (frames v) = [[], [], []])"
proof -
  have a: "''plank'' \<noteq> ''squat''" "''plank'' \<noteq> ''sitting''" by simp_all
  have m: "imread toy (Some [True]) \<noteq> None" by (simp add: toy_imread)
  note t = unknown_activity_no_issues [OF a, of toy "[True]" 0 no_files]
    unknown_activity_no_issues [OF a, of toy twelve_frames 0 no_files]
  have k: "keypoints (pose_feedback ''plank'' (Some visible_body)) \<noteq> []"
    by (simp add: pose_feedback_def visible_body_def)
  from t(1) m have 1: "\<exists>r fs'. analyze_frame toy [True] ''plank'' 0 no_files = (Inr r, fs')
         \<and> issues r = [] \<and> keypoints r \<noteq> []"
    using k by (auto simp: toy_frame)
  have l: "length (frame_loop toy ''plank'' (Pose toy False) (video_frames toy twelve_frames) 0 []) = 3"
    using arg_cong [OF frames_of_video [of toy "''plank''" "Pose toy False" "video_frames toy twelve_frames" 0], of length]
    by (simp add: video_frames_def toy_def twelve_frames_def sampled_Cons frame_skip_def)
  from t(2) have 2: "\<exists>v fs'. analyze_video toy twelve_frames ''plank'' 0 no_files = (Inr v, fs')
         \<and> map issues (frames v) = [[], [], []]"
    using l by (auto simp: analyze_video_eq length_Suc_conv numeral_3_eq_3)
  from a m 1 2 show ?thesis by (intro conjI)
qed

subsection \<open>Temporary storage\<close>

text \<open>
  C9. \<open>analyze_frame\<close> removes the staged file only at the end of the normal path. When
  the upload does not decode, the colour conversion raises, the request fails and the file
  is still in temporary storage; when it decodes, the file is gone afterwards.
\<close>

theorem temp_file_left_on_decode_failure:
  "(imread sv (Some file) = None \<longrightarrow>
      fst (analyze_frame sv file activity temp_path fs) = Inl CvError
      \<and> snd (analyze_frame sv file activity temp_path fs) temp_path = Some file)
   \<and> (imread sv (Some file) \<noteq> None \<longrightarrow>
      snd (analyze_frame sv file activity temp_path fs) temp_path = None)"
  by (auto simp: analyze_frame_undecodable analyze_frame_decoded)

theorem temp_file_left_on_decode_failure_witness:
  "imread toy (Some []) = None
   \<and> fst (analyze_frame toy [] ''squat'' 0 no_files) = Inl CvError
   \<and> snd (analyze_frame toy [] ''squat'' 0 no_files) 0 = Some []"
proof -
  have "imread toy (Some []) = None" by (simp add: toy_imread)
  then show ?thesis
    using temp_file_left_on_decode_failure [of toy "[]" "''squat''" 0 no_files] by simp
qed

end
